theory Spec2Isabelle
  imports Complex_Main "HOL-Library.Word"
begin

section \<open>JavaScript values used by the editor\<close>

subsection \<open>Strings\<close>

text \<open>
  A JavaScript string is a sequence of 16-bit code units. Literals of the source are
  written with \<open>str\<close>, which maps each character of an Isabelle literal to its code unit.
\<close>

type_synonym code_unit = "16 word"
type_synonym jsstring = "code_unit list"

definition str :: "string \<Rightarrow> jsstring" where
  "str cs = map (\<lambda>c. of_char c) cs"

definition nl :: jsstring where
  "nl = [0x0A]"

text \<open>
  \<open>String.prototype.trim\<close> removes WhiteSpace and LineTerminator code units from both
  ends (ECMAScript: TAB, VT, FF, SP, NBSP, ZWNBSP, the Unicode space separators, LF, CR,
  LS, PS).
\<close>

definition isWhiteSpace :: "code_unit \<Rightarrow> bool" where
  "isWhiteSpace u = (u \<in> {0x09, 0x0A, 0x0B, 0x0C, 0x0D, 0x20, 0xA0, 0x1680,
     0x2000, 0x2001, 0x2002, 0x2003, 0x2004, 0x2005, 0x2006, 0x2007, 0x2008, 0x2009, 0x200A,
     0x2028, 0x2029, 0x202F, 0x205F, 0x3000, 0xFEFF})"

definition trim :: "jsstring \<Rightarrow> jsstring" where
  "trim s = rev (dropWhile isWhiteSpace (rev (dropWhile isWhiteSpace s)))"

text \<open>\<open>Array.prototype.join\<close> on an array of strings.\<close>

fun join :: "jsstring \<Rightarrow> jsstring list \<Rightarrow> jsstring" where
  "join sep [] = []"
| "join sep [x] = x"
| "join sep (x # y # ys) = x @ sep @ join sep (y # ys)"

subsection \<open>Numbers\<close>

text \<open>
  A JavaScript number is an IEEE 754 double: a finite value, one of the two infinities, or
  NaN. Finite values are idealised as reals (rounding and the sign of zero are left out);
  what is kept is where the arithmetic leaves the finite numbers: a division by zero gives
  an infinity, and \<open>0 / 0\<close> gives NaN. The pointer position and the container rectangle
  delivered by the browser are finite.
\<close>

datatype jsnum = Fin real | PosInf | NegInf | NaN

fun js_div :: "real \<Rightarrow> real \<Rightarrow> jsnum" where
  "js_div a b =
     (if b = 0 then (if a = 0 then NaN else if 0 < a then PosInf else NegInf)
      else Fin (a / b))"

fun js_times :: "jsnum \<Rightarrow> real \<Rightarrow> jsnum" where
  "js_times (Fin a) k = Fin (a * k)"
| "js_times PosInf k = (if k = 0 then NaN else if 0 < k then PosInf else NegInf)"
| "js_times NegInf k = (if k = 0 then NaN else if 0 < k then NegInf else PosInf)"
| "js_times NaN k = NaN"

text \<open>\<open>Math.min(k, x)\<close> and \<open>Math.max(k, x)\<close> with a finite first argument: NaN if the
  second argument is NaN.\<close>

fun Math_min :: "real \<Rightarrow> jsnum \<Rightarrow> jsnum" where
  "Math_min k (Fin a) = Fin (min k a)"
| "Math_min k PosInf = Fin k"
| "Math_min k NegInf = NegInf"
| "Math_min k NaN = NaN"

fun Math_max :: "real \<Rightarrow> jsnum \<Rightarrow> jsnum" where
  "Math_max k (Fin a) = Fin (max k a)"
| "Math_max k PosInf = PosInf"
| "Math_max k NegInf = Fin k"
| "Math_max k NaN = NaN"

section \<open>Data model (types.ts)\<close>

record Correction =
  lineNumber :: int
  original :: jsstring
  corrected :: jsstring
  isError :: bool
  explanation :: jsstring

text \<open>
  The object the correction service resolves with. At run time either array may be
  missing, which is what the test \<open>result.htmlCorrections && result.cssCorrections\<close> of
  the caller is for; an array, even an empty one, is truthy.
\<close>

record CorrectionResponse =
  htmlCorrections :: "Correction list option"
  cssCorrections :: "Correction list option"

text \<open>How an awaited call settles: it returns a value, throws an \<open>Error\<close> carrying a
  message, or throws a value that is not an \<open>Error\<close>.\<close>

datatype 'a settled = Fulfilled 'a | RejectedError jsstring | RejectedOther

text \<open>The calls a handler issues to the external service.\<close>

datatype request =
    CorrectCode jsstring jsstring
  | GetChatResponse jsstring jsstring jsstring

section \<open>The state of the App component (App.tsx)\<close>

record app =
  htmlCode :: jsstring
  cssCode :: jsstring
  htmlDiff :: "Correction list option"
  cssDiff :: "Correction list option"
  isLoading :: bool
  error :: "jsstring option"
  logs :: "jsstring list"
  isLogPanelExpanded :: bool
  isPreviewPanelExpanded :: bool
  isPreviewFullScreen :: bool
  isPreviewPinned :: bool
  chatQuery :: jsstring
  chatResponse :: jsstring
  isChatResponseVisible :: bool
  isChatLoading :: bool
  dividerPosition :: jsnum
  isDragging :: bool
  isHtmlFocused :: bool
  isCssFocused :: bool

definition initialHtml :: jsstring where
  "initialHtml = join nl
     [str ''<h1>Welcome to the Live Editor!</h1>'',
      str ''<p>Change the HTML or CSS to see updates.</p>'',
      str ''<button class='' @ [0x22] @ str ''btn'' @ [0x22] @ str ''>Click Me</button>'']"

definition initialCss :: jsstring where
  "initialCss = join nl
     [str ''body {'',
      str ''  font-family: sans-serif;'',
      str ''  padding: 2em;'',
      str ''  color: #333;'',
      str ''}'',
      [],
      str ''.btn {'',
      str ''  background-color: #0284c7; /* A sky blue color */'',
      str ''  color: white;'',
      str ''  border: none;'',
      str ''  padding: 10px 20px;'',
      str ''  border-radius: 5px;'',
      str ''  cursor: pointer;'',
      str ''}'',
      [],
      str ''.btn:hover {'',
      str ''  background-color: #0369a1; /* A slightly darker sky blue */'',
      str ''}'']"

text \<open>The values given to \<open>useState\<close> and \<open>useRef\<close> on the first render.\<close>

definition initial :: app where
  "initial = \<lparr>htmlCode = initialHtml, cssCode = initialCss, htmlDiff = None, cssDiff = None,
     isLoading = False, error = None, logs = [], isLogPanelExpanded = False,
     isPreviewPanelExpanded = False, isPreviewFullScreen = False, isPreviewPinned = False,
     chatQuery = [], chatResponse = [], isChatResponseVisible = False,
     isChatLoading = False, dividerPosition = Fin 50, isDragging = False,
     isHtmlFocused = False, isCssFocused = False\<rparr>"

section \<open>Handlers\<close>

text \<open>
  Each handler is a function from the state it runs in to the state after it. A handler
  reads the clock each time it logs; the time strings it reads are its first arguments.
  An \<open>async\<close> handler is two functions: the part up to the \<open>await\<close>, which also returns the
  call it issues to the service (\<open>None\<close> when it returns before calling), and the part that
  runs once the call has settled. Every state update of the second part is either a
  constant or a function of the previous value, so it applies to whatever the state is by
  then.
\<close>

definition addLog :: "jsstring \<Rightarrow> jsstring \<Rightarrow> app \<Rightarrow> app" where
  "addLog timestamp message s =
     s\<lparr>logs := (str ''['' @ timestamp @ str ''] '' @ message) # logs s\<rparr>"

subsection \<open>Correction workflow\<close>

definition handleCorrectCode :: "jsstring \<Rightarrow> app \<Rightarrow> app \<times> request option" where
  "handleCorrectCode t s =
     (if trim (htmlCode s) = [] \<and> trim (cssCode s) = [] then
        (let msg = str ''Please enter some HTML or CSS code to correct.''
         in (addLog t (str ''Validation Error: '' @ msg) (s\<lparr>error := Some msg\<rparr>), None))
      else
        ((addLog t (str ''Correction process started...'') s)
           \<lparr>isLoading := True, error := None, htmlDiff := None, cssDiff := None\<rparr>,
         Some (CorrectCode (htmlCode s) (cssCode s))))"

definition handleCorrectCode_settled ::
  "CorrectionResponse settled \<Rightarrow> jsstring \<Rightarrow> jsstring \<Rightarrow> app \<Rightarrow> app" where
  "handleCorrectCode_settled r t1 t2 s =
     (let s1 =
        (case r of
           Fulfilled result \<Rightarrow>
             (case (htmlCorrections result, cssCorrections result) of
                (Some h, Some c) \<Rightarrow>
                  addLog t1 (str ''Correction successful. Diff generated.'')
                    (s\<lparr>htmlDiff := Some h, cssDiff := Some c\<rparr>)
              | _ \<Rightarrow>
                  (let msg = str ''No corrections found or unexpected API response.''
                   in addLog t1 (str ''API Warning: '' @ msg) (s\<lparr>error := Some msg\<rparr>)))
         | RejectedError m \<Rightarrow> addLog t1 (str ''API Error: '' @ m) (s\<lparr>error := Some m\<rparr>)
         | RejectedOther \<Rightarrow>
             (let msg = str ''An unknown error occurred.''
              in addLog t1 (str ''Error: '' @ msg) (s\<lparr>error := Some msg\<rparr>)))
      in addLog t2 (str ''Correction process finished.'') (s1\<lparr>isLoading := False\<rparr>))"

definition handleAcceptCorrection :: "jsstring \<Rightarrow> app \<Rightarrow> app" where
  "handleAcceptCorrection t s =
     (let s1 = (case htmlDiff s of
                  Some d \<Rightarrow> s\<lparr>htmlCode := join nl (map corrected d)\<rparr>
                | None \<Rightarrow> s);
          s2 = (case cssDiff s of
                  Some d \<Rightarrow> s1\<lparr>cssCode := join nl (map corrected d)\<rparr>
                | None \<Rightarrow> s1)
      in addLog t (str ''Corrections accepted by user.'') (s2\<lparr>htmlDiff := None, cssDiff := None\<rparr>))"

definition handleEditAgain :: "jsstring \<Rightarrow> app \<Rightarrow> app" where
  "handleEditAgain t s =
     addLog t (str ''User returned to edit mode.'') (s\<lparr>htmlDiff := None, cssDiff := None\<rparr>)"

text \<open>The \<open>disabled\<close> attribute of the button that starts a correction, and a click on it.\<close>

definition correctDisabled :: "app \<Rightarrow> bool" where
  "correctDisabled s = (isLoading s \<or> (htmlDiff s \<noteq> None \<and> cssDiff s \<noteq> None))"

definition correctClick :: "jsstring \<Rightarrow> app \<Rightarrow> app \<times> request option" where
  "correctClick t s = (if correctDisabled s then (s, None) else handleCorrectCode t s)"

subsection \<open>Chat workflow\<close>

definition handleChatSubmit :: "jsstring \<Rightarrow> app \<Rightarrow> app \<times> request option" where
  "handleChatSubmit t s =
     (if trim (chatQuery s) = [] \<or> isChatLoading s then (s, None)
      else
        ((addLog t (str ''Chat query submitted: '' @ [0x22] @ chatQuery s @ [0x22]) s)
           \<lparr>isChatLoading := True, chatResponse := [], isChatResponseVisible := True,
            error := None\<rparr>,
         Some (GetChatResponse (htmlCode s) (cssCode s) (chatQuery s))))"

definition handleChatSubmit_settled :: "jsstring settled \<Rightarrow> jsstring \<Rightarrow> app \<Rightarrow> app" where
  "handleChatSubmit_settled r t s =
     (let s1 =
        (case r of
           Fulfilled response \<Rightarrow>
             addLog t (str ''Chat response received.'') (s\<lparr>chatResponse := response\<rparr>)
         | RejectedError m \<Rightarrow>
             addLog t (str ''Chat Error: '' @ m) (s\<lparr>chatResponse := str ''**Error:** '' @ m\<rparr>)
         | RejectedOther \<Rightarrow>
             (let errorMessage = str ''An unknown chat error occurred.''
              in addLog t (str ''Chat Error: '' @ errorMessage)
                   (s\<lparr>chatResponse := str ''**Error:** '' @ errorMessage\<rparr>)))
      in s1\<lparr>isChatLoading := False, chatQuery := []\<rparr>)"

subsection \<open>Split-pane resizer\<close>

text \<open>The part of the container's bounding rectangle that the handler reads.\<close>

record DOMRect =
  left :: real
  width :: real

definition handleMouseDown :: "app \<Rightarrow> app" where
  "handleMouseDown s = s\<lparr>isDragging := True\<rparr>"

definition handleMouseUp :: "app \<Rightarrow> app" where
  "handleMouseUp s = s\<lparr>isDragging := False\<rparr>"

text \<open>\<open>current\<close> is \<open>editorContainerRef.current\<close>: \<open>None\<close> while the ref is null.\<close>

definition handleMouseMove :: "real \<Rightarrow> DOMRect option \<Rightarrow> app \<Rightarrow> app" where
  "handleMouseMove clientX current s =
     (if \<not> isDragging s \<or> current = None then s
      else
        (let rect = the current;
             newX = clientX - left rect;
             newPosition = js_times (js_div newX (width rect)) 100;
             newPosition = Math_max 15 (Math_min 85 newPosition)
         in s\<lparr>dividerPosition := newPosition\<rparr>))"

subsection \<open>Panel expansion\<close>

definition handleTogglePreviewFullScreen :: "app \<Rightarrow> app" where
  "handleTogglePreviewFullScreen s =
     (let prev = isPreviewFullScreen s;
          s1 = (if prev then s\<lparr>isPreviewPanelExpanded := False\<rparr> else s)
      in s1\<lparr>isPreviewFullScreen := \<not> prev\<rparr>)"

definition handleTogglePinPreview :: "app \<Rightarrow> app" where
  "handleTogglePinPreview s =
     (let s1 = (if isPreviewPinned s then s\<lparr>isPreviewPanelExpanded := False\<rparr> else s)
      in s1\<lparr>isPreviewPinned := \<not> isPreviewPinned s1\<rparr>)"

text \<open>The preview panel has hover handlers only while it is neither pinned nor full screen.\<close>

definition previewMouseEnter :: "app \<Rightarrow> app" where
  "previewMouseEnter s =
     (if \<not> isPreviewPinned s \<and> \<not> isPreviewFullScreen s
      then s\<lparr>isPreviewPanelExpanded := True\<rparr> else s)"

definition previewMouseLeave :: "app \<Rightarrow> app" where
  "previewMouseLeave s =
     (if \<not> isPreviewPinned s \<and> \<not> isPreviewFullScreen s
      then s\<lparr>isPreviewPanelExpanded := False\<rparr> else s)"

section \<open>Runs of the application\<close>

text \<open>
  One event is one handler run to its end (for an \<open>async\<close> handler: one of its two parts).
  The events are the handlers themselves, whether or not the view currently shows the
  control that calls them, so every state the application can be in is the result of some
  list of events.
\<close>

datatype event =
    CorrectCodeRequested jsstring
  | CorrectCodeSettled "CorrectionResponse settled" jsstring jsstring
  | AcceptCorrection jsstring
  | EditAgain jsstring
  | ChatSubmitted jsstring
  | ChatSettled "jsstring settled" jsstring
  | ChatResponseClosed
  | SetChatQuery jsstring
  | SetHtmlCode jsstring
  | SetCssCode jsstring
  | MouseDown
  | MouseUp
  | MouseMove real "DOMRect option"
  | TogglePreviewFullScreen
  | TogglePinPreview
  | PreviewMouseEnter
  | PreviewMouseLeave
  | SetLogPanelExpanded bool
  | SetHtmlFocused bool
  | SetCssFocused bool

fun step :: "event \<Rightarrow> app \<Rightarrow> app" where
  "step (CorrectCodeRequested t) s = fst (handleCorrectCode t s)"
| "step (CorrectCodeSettled r t1 t2) s = handleCorrectCode_settled r t1 t2 s"
| "step (AcceptCorrection t) s = handleAcceptCorrection t s"
| "step (EditAgain t) s = handleEditAgain t s"
| "step (ChatSubmitted t) s = fst (handleChatSubmit t s)"
| "step (ChatSettled r t) s = handleChatSubmit_settled r t s"
| "step ChatResponseClosed s = s\<lparr>isChatResponseVisible := False\<rparr>"
| "step (SetChatQuery v) s = s\<lparr>chatQuery := v\<rparr>"
| "step (SetHtmlCode v) s = s\<lparr>htmlCode := v\<rparr>"
| "step (SetCssCode v) s = s\<lparr>cssCode := v\<rparr>"
| "step MouseDown s = handleMouseDown s"
| "step MouseUp s = handleMouseUp s"
| "step (MouseMove x current) s = handleMouseMove x current s"
| "step TogglePreviewFullScreen s = handleTogglePreviewFullScreen s"
| "step TogglePinPreview s = handleTogglePinPreview s"
| "step PreviewMouseEnter s = previewMouseEnter s"
| "step PreviewMouseLeave s = previewMouseLeave s"
| "step (SetLogPanelExpanded b) s = s\<lparr>isLogPanelExpanded := b\<rparr>"
| "step (SetHtmlFocused b) s = s\<lparr>isHtmlFocused := b\<rparr>"
| "step (SetCssFocused b) s = s\<lparr>isCssFocused := b\<rparr>"

fun run :: "event list \<Rightarrow> app \<Rightarrow> app" where
  "run [] s = s"
| "run (e # es) s = run es (step e s)"

section \<open>The specification's reading of accept, and concrete states\<close>

text \<open>
  The specification's words for the text that accepting produces: the newline join of the
  \<open>corrected\<close> fields in ascending \<open>lineNumber\<close> order.
\<close>

definition join_by_lineNumber :: "Correction list \<Rightarrow> jsstring" where
  "join_by_lineNumber d = join nl (map corrected (sort_key lineNumber d))"

text \<open>The specification's scenario: one line of markup, one correction, no style sheet.\<close>

definition scenario_correction :: Correction where
  "scenario_correction = \<lparr>lineNumber = 1, original = str ''<p>hi</p>'',
     corrected = str ''<p>Hi</p>'', isError = True, explanation = str ''Capitalize''\<rparr>"

definition scenario_editing :: app where
  "scenario_editing = initial\<lparr>htmlCode := str ''<p>hi</p>'', cssCode := []\<rparr>"

definition scenario_reviewing :: app where
  "scenario_reviewing =
     run [CorrectCodeRequested [],
          CorrectCodeSettled (Fulfilled \<lparr>htmlCorrections = Some [scenario_correction],
             cssCorrections = Some []\<rparr>) [] []] scenario_editing"

text \<open>
  The markup buffer holds the two lines \<open>a\<close> and \<open>b\<close>, and the service answers with
  an array that holds both lines once but lists line 2 before line 1.
\<close>

definition unsorted_corrections :: "Correction list" where
  "unsorted_corrections =
     [\<lparr>lineNumber = 2, original = str ''b'', corrected = str ''b'', isError = False,
       explanation = []\<rparr>,
      \<lparr>lineNumber = 1, original = str ''a'', corrected = str ''a'', isError = False,
       explanation = []\<rparr>]"

definition unsorted_reviewing :: app where
  "unsorted_reviewing =
     run [SetHtmlCode (str ''a'' @ nl @ str ''b''), CorrectCodeRequested [],
          CorrectCodeSettled (Fulfilled \<lparr>htmlCorrections = Some unsorted_corrections,
             cssCorrections = Some []\<rparr>) [] []] initial"

text \<open>Both buffers hold white space only.\<close>

definition blank_buffers :: app where
  "blank_buffers = initial\<lparr>htmlCode := str ''  '', cssCode := [0x0A, 0x09]\<rparr>"

text \<open>A chat request is pending; the query is blank.\<close>

definition chat_pending :: app where
  "chat_pending = initial\<lparr>chatQuery := str ''why?'', isChatLoading := True\<rparr>"

definition chat_blank :: app where
  "chat_blank = initial\<lparr>chatQuery := str '' ''\<rparr>"

text \<open>The validation message is showing and a chat query has been typed.\<close>

definition error_shown :: app where
  "error_shown = (fst (handleCorrectCode [] blank_buffers))\<lparr>chatQuery := str ''why?''\<rparr>"

text \<open>The message of an \<open>Error\<close> thrown by the correction service.\<close>

definition failed_message :: jsstring where
  "failed_message = str ''Failed to correct code: quota exceeded''"

text \<open>The preview panel is expanded, pinned and full screen.\<close>

definition preview_pinned_fullscreen :: app where
  "preview_pinned_fullscreen = initial\<lparr>isPreviewPanelExpanded := True,
     isPreviewFullScreen := True, isPreviewPinned := True\<rparr>"

text \<open>A split position within the bounds 15 and 85.\<close>

fun inRange :: "jsnum \<Rightarrow> bool" where
  "inRange (Fin p) = (15 \<le> p \<and> p \<le> 85)"
| "inRange PosInf = False"
| "inRange NegInf = False"
| "inRange NaN = False"

text \<open>A container 1000 wide at the left edge of the page, and one whose width is zero.\<close>

definition wide :: DOMRect where
  "wide = \<lparr>left = 0, width = 1000\<rparr>"

definition zero_width :: DOMRect where
  "zero_width = \<lparr>left = 0, width = 0\<rparr>"

text \<open>The handlers that end a review or start a request: accept, edit again, and the
  request handler itself (which the disabled button does not call).\<close>

fun leaves_review :: "event \<Rightarrow> bool" where
  "leaves_review (AcceptCorrection t) = True"
| "leaves_review (EditAgain t) = True"
| "leaves_review (CorrectCodeRequested t) = True"
| "leaves_review e = False"

section \<open>Properties\<close>

subsection \<open>Strings\<close>

lemma str_append: "str (a @ b) = str a @ str b"
  by (simp add: str_def)

text \<open>The test \<open>!s.trim()\<close> holds exactly for the strings made of white space only.\<close>

lemma trim_eq_Nil_iff: "trim s = [] \<longleftrightarrow> (\<forall>u\<in>set s. isWhiteSpace u)"
proof
  assume "trim s = []"
  then have "\<forall>u\<in>set (dropWhile isWhiteSpace s). isWhiteSpace u"
    by (simp add: trim_def)
  then have "dropWhile isWhiteSpace s = []"
    by (metis dropWhile_eq_Nil_conv dropWhile_idem)
  then show "\<forall>u\<in>set s. isWhiteSpace u"
    by simp
next
  assume "\<forall>u\<in>set s. isWhiteSpace u"
  then show "trim s = []"
    by (auto simp add: trim_def dest: set_dropWhileD)
qed

lemma trim_hi: "trim (str ''<p>hi</p>'') \<noteq> []"
  by (simp add: trim_def str_def isWhiteSpace_def)

subsection \<open>Accepting corrections\<close>

lemma scenario_reviewing_diffs:
  "htmlDiff scenario_reviewing = Some [scenario_correction] \<and> cssDiff scenario_reviewing = Some []"
  by (simp add: scenario_reviewing_def scenario_editing_def handleCorrectCode_def
      handleCorrectCode_settled_def addLog_def trim_hi)

text \<open>
  C1, as stated, fails: the handler joins the \<open>corrected\<close> fields in the order of the array
  and never sorts by \<open>lineNumber\<close>. For the array that lists line 2 before line 1 the buffer
  becomes \<open>b\<close>, newline, \<open>a\<close>, while ascending \<open>lineNumber\<close> order gives \<open>a\<close>, newline, \<open>b\<close>.
\<close>

theorem acceptCorrection_not_by_lineNumber:
  "htmlDiff unsorted_reviewing = Some unsorted_corrections
   \<and> cssDiff unsorted_reviewing = Some []
   \<and> htmlCode (handleAcceptCorrection [] unsorted_reviewing) = str ''b'' @ nl @ str ''a''
   \<and> join_by_lineNumber unsorted_corrections = str ''a'' @ nl @ str ''b''
   \<and> htmlCode (handleAcceptCorrection [] unsorted_reviewing)
       \<noteq> join_by_lineNumber unsorted_corrections"
  by (simp add: unsorted_reviewing_def unsorted_corrections_def handleCorrectCode_def
      handleCorrectCode_settled_def handleAcceptCorrection_def addLog_def Let_def
      join_by_lineNumber_def trim_def isWhiteSpace_def str_def nl_def)

text \<open>
  C1, amended: for every active pair of correction sequences, accepting replaces the markup
  buffer by the newline join of the \<open>corrected\<close> fields of the markup corrections in the
  order of the sequence, and the style buffer likewise, then clears both sequences; the
  order of the sequence is ascending \<open>lineNumber\<close> order whenever the sequence is sorted by
  \<open>lineNumber\<close>.
\<close>

theorem acceptCorrection_sequence_order:
  assumes "htmlDiff s = Some h" and "cssDiff s = Some c"
  shows "htmlCode (handleAcceptCorrection t s) = join nl (map corrected h)
    \<and> cssCode (handleAcceptCorrection t s) = join nl (map corrected c)
    \<and> htmlDiff (handleAcceptCorrection t s) = None
    \<and> cssDiff (handleAcceptCorrection t s) = None
    \<and> (sorted (map lineNumber h)
         \<longrightarrow> htmlCode (handleAcceptCorrection t s) = join_by_lineNumber h)
    \<and> (sorted (map lineNumber c)
         \<longrightarrow> cssCode (handleAcceptCorrection t s) = join_by_lineNumber c)"
  using assms
  by (simp add: handleAcceptCorrection_def addLog_def join_by_lineNumber_def
      sort_key_id_if_sorted)

text \<open>The scenario of the specification: the request, its answer, then accept.\<close>

theorem acceptCorrection_scenario:
  "htmlCode (handleAcceptCorrection [] scenario_reviewing) = str ''<p>Hi</p>''
   \<and> cssCode (handleAcceptCorrection [] scenario_reviewing) = []
   \<and> htmlDiff (handleAcceptCorrection [] scenario_reviewing) = None
   \<and> cssDiff (handleAcceptCorrection [] scenario_reviewing) = None
   \<and> htmlCode (handleAcceptCorrection [] scenario_reviewing)
       = join_by_lineNumber [scenario_correction]"
  using acceptCorrection_sequence_order [of scenario_reviewing "[scenario_correction]" "[]" "[]"]
    scenario_reviewing_diffs
  by (simp add: scenario_correction_def join_by_lineNumber_def)

subsection \<open>Guards of the two requests\<close>

text \<open>
  C2: a correction request while both buffers are empty or hold white space only issues no
  call to the service, sets the validation message as the visible error, prepends exactly
  one \<open>Validation Error\<close> entry to the log and changes nothing else.
\<close>

theorem requestCorrection_blank_buffers:
  assumes "\<forall>u\<in>set (htmlCode s). isWhiteSpace u" and "\<forall>u\<in>set (cssCode s). isWhiteSpace u"
  shows "handleCorrectCode t s =
     (s\<lparr>error := Some (str ''Please enter some HTML or CSS code to correct.''),
        logs := (str ''['' @ t
                 @ str ''] Validation Error: Please enter some HTML or CSS code to correct.'')
                # logs s\<rparr>, None)"
proof -
  have "trim (htmlCode s) = []" and "trim (cssCode s) = []"
    using assms by (simp_all add: trim_eq_Nil_iff)
  then show ?thesis
    by (simp add: handleCorrectCode_def addLog_def Let_def str_def)
qed

theorem requestCorrection_blank_buffers_witness:
  "handleCorrectCode (str ''10:00:00'') blank_buffers =
     (blank_buffers\<lparr>error := Some (str ''Please enter some HTML or CSS code to correct.''),
        logs := [str ''[10:00:00] Validation Error: Please enter some HTML or CSS code to correct.'']\<rparr>,
      None)"
  using requestCorrection_blank_buffers [of blank_buffers "str ''10:00:00''"]
  by (simp add: blank_buffers_def initial_def isWhiteSpace_def str_def)

text \<open>
  C8: submitting a chat query while a chat request is pending, or a query that is empty
  or white space only, changes no state at all (so the log, the stored response, the
  popup's visibility and the chat loading flag are as before) and issues no call.
\<close>

theorem chatSubmit_guard_noop:
  assumes "(\<forall>u\<in>set (chatQuery s). isWhiteSpace u) \<or> isChatLoading s"
  shows "handleChatSubmit t s = (s, None)"
  using assms by (auto simp add: handleChatSubmit_def trim_eq_Nil_iff)

theorem chatSubmit_guard_noop_witness:
  "handleChatSubmit [] chat_pending = (chat_pending, None)
   \<and> handleChatSubmit [] chat_blank = (chat_blank, None)
   \<and> handleChatSubmit [] initial = (initial, None)"
  using chatSubmit_guard_noop [of chat_pending "[]"] chatSubmit_guard_noop [of chat_blank "[]"]
    chatSubmit_guard_noop [of initial "[]"]
  by (simp add: chat_pending_def chat_blank_def initial_def isWhiteSpace_def str_def)

subsection \<open>Edit again\<close>

text \<open>
  C5: edit again clears both correction sequences and leaves both code buffers as they
  are; after a correction request, however it settles, followed by edit again, both
  buffers are what they were before the request and both sequences are null.
\<close>

theorem editAgain_keeps_buffers:
  "htmlCode (handleEditAgain t s) = htmlCode s
   \<and> cssCode (handleEditAgain t s) = cssCode s
   \<and> htmlDiff (handleEditAgain t s) = None
   \<and> cssDiff (handleEditAgain t s) = None
   \<and> htmlCode (run [CorrectCodeRequested t0, CorrectCodeSettled r t1 t2, EditAgain t] s)
       = htmlCode s
   \<and> cssCode (run [CorrectCodeRequested t0, CorrectCodeSettled r t1 t2, EditAgain t] s)
       = cssCode s
   \<and> htmlDiff (run [CorrectCodeRequested t0, CorrectCodeSettled r t1 t2, EditAgain t] s) = None
   \<and> cssDiff (run [CorrectCodeRequested t0, CorrectCodeSettled r t1 t2, EditAgain t] s) = None"
  by (simp add: handleEditAgain_def handleCorrectCode_def handleCorrectCode_settled_def
      addLog_def Let_def split: settled.split option.split)

theorem editAgain_scenario:
  "htmlCode (handleEditAgain [] scenario_reviewing) = str ''<p>hi</p>''
   \<and> cssCode (handleEditAgain [] scenario_reviewing) = []
   \<and> htmlDiff (handleEditAgain [] scenario_reviewing) = None
   \<and> cssDiff (handleEditAgain [] scenario_reviewing) = None"
  using editAgain_keeps_buffers [of "[]" scenario_editing "[]"
      "Fulfilled \<lparr>htmlCorrections = Some [scenario_correction], cssCorrections = Some []\<rparr>"
      "[]" "[]"]
  by (simp add: scenario_reviewing_def scenario_editing_def)

subsection \<open>Completion of a correction request\<close>

text \<open>
  C6: however the call settles, the second part of the request handler leaves the loading
  flag false. When the service throws an \<open>Error\<close>, its message becomes the visible error
  as it is (a thrown value that is not an \<open>Error\<close> has no message and gives a fixed one),
  the log gains the \<open>API Error\<close> entry (and the closing entry), and the correction
  sequences are not touched; after a request that was issued and then failed, both
  sequences are null and the button that starts a correction is enabled again.
\<close>

theorem correction_request_resolves:
  "\<not> isLoading (handleCorrectCode_settled r t1 t2 s)
   \<and> error (handleCorrectCode_settled (RejectedError m) t1 t2 s) = Some m
   \<and> logs (handleCorrectCode_settled (RejectedError m) t1 t2 s)
       = [str ''['' @ t2 @ str ''] Correction process finished.'',
          str ''['' @ t1 @ str ''] API Error: '' @ m] @ logs s
   \<and> htmlDiff (handleCorrectCode_settled (RejectedError m) t1 t2 s) = htmlDiff s
   \<and> cssDiff (handleCorrectCode_settled (RejectedError m) t1 t2 s) = cssDiff s
   \<and> error (handleCorrectCode_settled RejectedOther t1 t2 s)
       = Some (str ''An unknown error occurred.'')
   \<and> (snd (handleCorrectCode t0 s) \<noteq> None \<longrightarrow>
        htmlDiff (run [CorrectCodeRequested t0, CorrectCodeSettled (RejectedError m) t1 t2] s)
          = None
        \<and> cssDiff (run [CorrectCodeRequested t0, CorrectCodeSettled (RejectedError m) t1 t2] s)
          = None
        \<and> error (run [CorrectCodeRequested t0, CorrectCodeSettled (RejectedError m) t1 t2] s)
          = Some m
        \<and> \<not> correctDisabled
            (run [CorrectCodeRequested t0, CorrectCodeSettled (RejectedError m) t1 t2] s))"
  by (simp add: handleCorrectCode_settled_def handleCorrectCode_def correctDisabled_def
      addLog_def Let_def str_def split: settled.split option.split)

theorem correction_request_resolves_witness:
  "snd (handleCorrectCode [] scenario_editing) \<noteq> None
   \<and> \<not> isLoading (run [CorrectCodeRequested [],
         CorrectCodeSettled (RejectedError failed_message) [] []] scenario_editing)
   \<and> error (run [CorrectCodeRequested [],
         CorrectCodeSettled (RejectedError failed_message) [] []] scenario_editing)
       = Some failed_message
   \<and> htmlDiff (run [CorrectCodeRequested [],
         CorrectCodeSettled (RejectedError failed_message) [] []] scenario_editing) = None
   \<and> cssDiff (run [CorrectCodeRequested [],
         CorrectCodeSettled (RejectedError failed_message) [] []] scenario_editing) = None
   \<and> \<not> correctDisabled (run [CorrectCodeRequested [],
         CorrectCodeSettled (RejectedError failed_message) [] []] scenario_editing)"
  using correction_request_resolves [of "RejectedError failed_message" "[]" "[]"
      "fst (handleCorrectCode [] scenario_editing)" failed_message "[]" ]
    correction_request_resolves [of "RejectedError failed_message" "[]" "[]" scenario_editing
      failed_message "[]"]
  by (simp add: scenario_editing_def handleCorrectCode_def trim_hi)

subsection \<open>What the chat workflow shares with the correction workflow\<close>

text \<open>
  C4, as stated, fails: the chat handler calls \<open>setError(null)\<close>, so submitting a chat
  query while the validation message is showing removes the message.
\<close>

theorem chatSubmit_clears_error:
  "error error_shown = Some (str ''Please enter some HTML or CSS code to correct.'')
   \<and> error (fst (handleChatSubmit [] error_shown)) = None
   \<and> error (fst (handleChatSubmit [] error_shown)) \<noteq> error error_shown"
  by (simp add: error_shown_def blank_buffers_def initial_def handleCorrectCode_def
      handleChatSubmit_def addLog_def Let_def trim_def isWhiteSpace_def str_def)

text \<open>
  C4, amended: submitting a chat query leaves the stored correction sequences, the
  correction loading flag and both code buffers unchanged, and sets the visible error
  message to null when the query is submitted (it leaves the message as it is when the
  guard refuses the query); the completion of the chat request leaves all of these,
  the message included, unchanged. Of the handlers of the two workflows only accept
  writes a code buffer: the request, its completion and edit again leave both buffers
  unchanged.
\<close>

theorem chat_frame:
  "htmlCode (fst (handleChatSubmit t s)) = htmlCode s
   \<and> cssCode (fst (handleChatSubmit t s)) = cssCode s
   \<and> htmlDiff (fst (handleChatSubmit t s)) = htmlDiff s
   \<and> cssDiff (fst (handleChatSubmit t s)) = cssDiff s
   \<and> isLoading (fst (handleChatSubmit t s)) = isLoading s
   \<and> error (fst (handleChatSubmit t s))
       = (if snd (handleChatSubmit t s) = None then error s else None)
   \<and> htmlCode (handleChatSubmit_settled r t s) = htmlCode s
   \<and> cssCode (handleChatSubmit_settled r t s) = cssCode s
   \<and> htmlDiff (handleChatSubmit_settled r t s) = htmlDiff s
   \<and> cssDiff (handleChatSubmit_settled r t s) = cssDiff s
   \<and> isLoading (handleChatSubmit_settled r t s) = isLoading s
   \<and> error (handleChatSubmit_settled r t s) = error s
   \<and> htmlCode (fst (handleCorrectCode t s)) = htmlCode s
   \<and> cssCode (fst (handleCorrectCode t s)) = cssCode s
   \<and> htmlCode (handleCorrectCode_settled q t1 t2 s) = htmlCode s
   \<and> cssCode (handleCorrectCode_settled q t1 t2 s) = cssCode s
   \<and> htmlCode (handleEditAgain t s) = htmlCode s
   \<and> cssCode (handleEditAgain t s) = cssCode s"
  by (simp add: handleChatSubmit_def handleChatSubmit_settled_def handleCorrectCode_def
      handleCorrectCode_settled_def handleEditAgain_def addLog_def Let_def
      split: settled.split option.split)

theorem chat_frame_witness:
  "snd (handleChatSubmit [] error_shown) \<noteq> None
   \<and> htmlCode (fst (handleChatSubmit [] error_shown)) = htmlCode error_shown
   \<and> cssCode (fst (handleChatSubmit [] error_shown)) = cssCode error_shown
   \<and> htmlDiff (fst (handleChatSubmit [] error_shown)) = htmlDiff error_shown
   \<and> cssDiff (fst (handleChatSubmit [] error_shown)) = cssDiff error_shown
   \<and> isLoading (fst (handleChatSubmit [] error_shown)) = isLoading error_shown
   \<and> error (fst (handleChatSubmit [] error_shown)) = None"
  using chat_frame [of "[]" error_shown "Fulfilled []"
      "Fulfilled \<lparr>htmlCorrections = None, cssCorrections = None\<rparr>" "[]" "[]"]
  by (simp add: error_shown_def blank_buffers_def initial_def handleCorrectCode_def
      handleChatSubmit_def addLog_def Let_def trim_def isWhiteSpace_def str_def)

subsection \<open>Preview panel\<close>

text \<open>
  C7: after the pin toggle runs while the preview is pinned, and after the full-screen
  toggle runs while the preview is full screen, the hover-expanded flag is false, whatever
  it was before (and the preview is no longer pinned, respectively full screen).
\<close>

theorem unpin_and_exit_fullscreen_collapse:
  "(isPreviewPinned s \<longrightarrow>
      \<not> isPreviewPinned (handleTogglePinPreview s)
      \<and> \<not> isPreviewPanelExpanded (handleTogglePinPreview s))
   \<and> (isPreviewFullScreen s \<longrightarrow>
      \<not> isPreviewFullScreen (handleTogglePreviewFullScreen s)
      \<and> \<not> isPreviewPanelExpanded (handleTogglePreviewFullScreen s))"
  by (simp add: handleTogglePinPreview_def handleTogglePreviewFullScreen_def)

theorem unpin_and_exit_fullscreen_collapse_witness:
  "isPreviewPanelExpanded preview_pinned_fullscreen
   \<and> isPreviewPinned preview_pinned_fullscreen
   \<and> \<not> isPreviewPinned (handleTogglePinPreview preview_pinned_fullscreen)
   \<and> \<not> isPreviewPanelExpanded (handleTogglePinPreview preview_pinned_fullscreen)
   \<and> isPreviewFullScreen preview_pinned_fullscreen
   \<and> \<not> isPreviewFullScreen (handleTogglePreviewFullScreen preview_pinned_fullscreen)
   \<and> \<not> isPreviewPanelExpanded (handleTogglePreviewFullScreen preview_pinned_fullscreen)"
  using unpin_and_exit_fullscreen_collapse [of preview_pinned_fullscreen]
  by (simp add: preview_pinned_fullscreen_def)

subsection \<open>Split position\<close>

text \<open>The clamp brings every number but NaN into the bounds.\<close>

lemma clamp_in_range: "q \<noteq> NaN \<Longrightarrow> inRange (Math_max 15 (Math_min 85 (js_times q 100)))"
  by (cases q) auto

text \<open>
  While a drag session is armed, a pointer move leaves the split position within the
  bounds whenever the container's width is not zero or the pointer is not on its left
  edge, whatever the magnitudes are.
\<close>

lemma handleMouseMove_in_range:
  assumes "width rect \<noteq> 0 \<or> clientX \<noteq> left rect"
  shows "inRange (dividerPosition (handleMouseMove clientX (Some rect) (handleMouseDown s)))"
proof -
  have "js_div (clientX - left rect) (width rect) \<noteq> NaN"
    using assms by auto
  then show ?thesis
    by (simp add: handleMouseMove_def handleMouseDown_def Let_def clamp_in_range
        del: js_div.simps)
qed

text \<open>Dragging from 0 to 1000 over the container 1000 wide gives 85.\<close>

lemma handleMouseMove_scenario:
  "dividerPosition
     (run [MouseDown, MouseMove 0 (Some wide), MouseMove 1000 (Some wide)] initial) = Fin 85"
  by (simp add: handleMouseMove_def handleMouseDown_def initial_def wide_def Let_def)

text \<open>
  C3 does not hold of the handler: while a drag session is armed, a pointer move over a
  container of width zero with the pointer on the container's left edge computes \<open>0 / 0\<close>,
  which is NaN; \<open>Math.min\<close> and \<open>Math.max\<close> pass NaN on, and the split position becomes NaN,
  which is not within the bounds.
\<close>

theorem handleMouseMove_zero_width:
  assumes "isDragging s" and "width rect = 0" and "clientX = left rect"
  shows "dividerPosition (handleMouseMove clientX (Some rect) s) = NaN
    \<and> \<not> inRange (dividerPosition (handleMouseMove clientX (Some rect) s))"
  using assms by (simp add: handleMouseMove_def Let_def)

theorem handleMouseMove_zero_width_witness:
  "isDragging (handleMouseDown initial)
   \<and> inRange (dividerPosition (handleMouseDown initial))
   \<and> dividerPosition (handleMouseMove 0 (Some zero_width) (handleMouseDown initial)) = NaN
   \<and> \<not> inRange (dividerPosition (handleMouseMove 0 (Some zero_width) (handleMouseDown initial)))"
  using handleMouseMove_zero_width [of "handleMouseDown initial" zero_width 0]
  by (simp add: handleMouseDown_def initial_def zero_width_def)

subsection \<open>The two correction sequences\<close>

lemma step_keeps_pairing:
  assumes paired: "htmlDiff s = None \<longleftrightarrow> cssDiff s = None"
  shows "htmlDiff (step e s) = None \<longleftrightarrow> cssDiff (step e s) = None"
proof (cases e)
  case (CorrectCodeRequested t)
  with paired show ?thesis by (simp add: handleCorrectCode_def addLog_def Let_def)
next
  case (CorrectCodeSettled r t1 t2)
  with paired show ?thesis
    by (simp add: handleCorrectCode_settled_def addLog_def Let_def
        split: settled.split option.split)
next
  case (AcceptCorrection t)
  with paired show ?thesis by (simp add: handleAcceptCorrection_def addLog_def Let_def)
next
  case (EditAgain t)
  with paired show ?thesis by (simp add: handleEditAgain_def addLog_def)
next
  case (ChatSubmitted t)
  with paired show ?thesis by (simp add: handleChatSubmit_def addLog_def)
next
  case (ChatSettled r t)
  with paired show ?thesis
    by (simp add: handleChatSubmit_settled_def addLog_def Let_def split: settled.split)
next
  case (MouseMove x current)
  with paired show ?thesis by (simp add: handleMouseMove_def Let_def)
qed (insert paired, simp_all add: handleMouseDown_def handleMouseUp_def
      handleTogglePreviewFullScreen_def handleTogglePinPreview_def previewMouseEnter_def
      previewMouseLeave_def Let_def)

lemma run_keeps_pairing:
  "(htmlDiff s = None \<longleftrightarrow> cssDiff s = None)
    \<Longrightarrow> (htmlDiff (run es s) = None \<longleftrightarrow> cssDiff (run es s) = None)"
proof (induction es arbitrary: s)
  case Nil
  then show ?case by simp
next
  case (Cons e es)
  have "htmlDiff (step e s) = None \<longleftrightarrow> cssDiff (step e s) = None"
    using Cons.prems by (rule step_keeps_pairing)
  then show ?case
    using Cons.IH [of "step e s"] by simp
qed

text \<open>
  C9: in every state that a list of events leads to from the first render, the markup
  correction sequence is null exactly when the style correction sequence is null. (A state
  is what one handler run leaves behind; the two setter calls inside one run are not
  separate states.)
\<close>

theorem corrections_never_partial:
  "htmlDiff (run es initial) = None \<longleftrightarrow> cssDiff (run es initial) = None"
  by (rule run_keeps_pairing) (simp add: initial_def)

theorem corrections_never_partial_witness:
  "htmlDiff (run [SetHtmlCode (str ''<p>hi</p>''), CorrectCodeRequested [],
       CorrectCodeSettled (Fulfilled \<lparr>htmlCorrections = Some [scenario_correction],
         cssCorrections = Some []\<rparr>) [] []] initial) = Some [scenario_correction]
   \<and> cssDiff (run [SetHtmlCode (str ''<p>hi</p>''), CorrectCodeRequested [],
       CorrectCodeSettled (Fulfilled \<lparr>htmlCorrections = Some [scenario_correction],
         cssCorrections = Some []\<rparr>) [] []] initial) \<noteq> None
   \<and> htmlDiff (run [SetHtmlCode (str ''<p>hi</p>''), CorrectCodeRequested [],
       CorrectCodeSettled (Fulfilled \<lparr>htmlCorrections = Some [scenario_correction],
         cssCorrections = None\<rparr>) [] []] initial) = None
   \<and> cssDiff (run [SetHtmlCode (str ''<p>hi</p>''), CorrectCodeRequested [],
       CorrectCodeSettled (Fulfilled \<lparr>htmlCorrections = Some [scenario_correction],
         cssCorrections = None\<rparr>) [] []] initial) = None"
  using corrections_never_partial [of "[SetHtmlCode (str ''<p>hi</p>''), CorrectCodeRequested [],
       CorrectCodeSettled (Fulfilled \<lparr>htmlCorrections = Some [scenario_correction],
         cssCorrections = Some []\<rparr>) [] []]"]
    corrections_never_partial [of "[SetHtmlCode (str ''<p>hi</p>''), CorrectCodeRequested [],
       CorrectCodeSettled (Fulfilled \<lparr>htmlCorrections = Some [scenario_correction],
         cssCorrections = None\<rparr>) [] []]"]
  by (simp add: handleCorrectCode_def handleCorrectCode_settled_def addLog_def Let_def trim_hi)

subsection \<open>The button that starts a correction\<close>

lemma step_keeps_review:
  assumes both: "htmlDiff s \<noteq> None \<and> cssDiff s \<noteq> None" and stay: "\<not> leaves_review e"
  shows "htmlDiff (step e s) \<noteq> None \<and> cssDiff (step e s) \<noteq> None"
proof (cases e)
  case (CorrectCodeSettled r t1 t2)
  with both show ?thesis
    by (simp add: handleCorrectCode_settled_def addLog_def Let_def
        split: settled.split option.split)
next
  case (ChatSubmitted t)
  with both show ?thesis by (simp add: handleChatSubmit_def addLog_def)
next
  case (ChatSettled r t)
  with both show ?thesis
    by (simp add: handleChatSubmit_settled_def addLog_def Let_def split: settled.split)
next
  case (MouseMove x current)
  with both show ?thesis by (simp add: handleMouseMove_def Let_def)
qed (insert both stay, simp_all add: handleMouseDown_def handleMouseUp_def
      handleTogglePreviewFullScreen_def handleTogglePinPreview_def previewMouseEnter_def
      previewMouseLeave_def Let_def)

text \<open>
  C10: the button is enabled exactly when no request is loading and it is not the case
  that both correction sequences are present. So while a request is loading or both
  sequences are present a click on it does nothing and issues no call; while both are
  present every handler other than accept and edit again (and the request handler, which
  the disabled button does not reach) leaves it disabled, and accept and edit again enable
  it again when nothing is loading.
\<close>

theorem correct_button_enabled_iff:
  "(\<not> correctDisabled s)
     = (\<not> isLoading s \<and> \<not> (htmlDiff s \<noteq> None \<and> cssDiff s \<noteq> None))
   \<and> (isLoading s \<or> (htmlDiff s \<noteq> None \<and> cssDiff s \<noteq> None) \<longrightarrow>
        correctClick t s = (s, None))
   \<and> (htmlDiff s \<noteq> None \<and> cssDiff s \<noteq> None \<longrightarrow>
        (\<not> leaves_review e \<longrightarrow> correctDisabled (step e s))
        \<and> (\<not> isLoading s \<longrightarrow> \<not> correctDisabled (handleAcceptCorrection t s)
                              \<and> \<not> correctDisabled (handleEditAgain t s)))"
proof -
  have "htmlDiff s \<noteq> None \<and> cssDiff s \<noteq> None \<Longrightarrow> \<not> leaves_review e
      \<Longrightarrow> correctDisabled (step e s)"
    using step_keeps_review [of s e] by (simp add: correctDisabled_def)
  moreover have "\<not> isLoading s \<Longrightarrow> \<not> correctDisabled (handleAcceptCorrection t s)"
    by (simp add: correctDisabled_def handleAcceptCorrection_def addLog_def Let_def
        split: option.split)
  moreover have "\<not> isLoading s \<Longrightarrow> \<not> correctDisabled (handleEditAgain t s)"
    by (simp add: correctDisabled_def handleEditAgain_def addLog_def)
  moreover have "isLoading s \<or> (htmlDiff s \<noteq> None \<and> cssDiff s \<noteq> None)
      \<Longrightarrow> correctClick t s = (s, None)"
    by (simp add: correctClick_def correctDisabled_def)
  moreover have "(\<not> correctDisabled s)
      = (\<not> isLoading s \<and> \<not> (htmlDiff s \<noteq> None \<and> cssDiff s \<noteq> None))"
    by (simp add: correctDisabled_def)
  ultimately show ?thesis by blast
qed

theorem correct_button_scenario:
  "correctDisabled scenario_reviewing
   \<and> correctClick [] scenario_reviewing = (scenario_reviewing, None)
   \<and> correctDisabled (step (SetChatQuery (str ''why?'')) scenario_reviewing)
   \<and> \<not> correctDisabled (handleAcceptCorrection [] scenario_reviewing)
   \<and> \<not> correctDisabled (handleEditAgain [] scenario_reviewing)"
  using correct_button_enabled_iff [of scenario_reviewing "[]" "SetChatQuery (str ''why?'')"]
    scenario_reviewing_diffs
  by (simp add: scenario_reviewing_def scenario_editing_def handleCorrectCode_def
      handleCorrectCode_settled_def addLog_def trim_hi)

end
